theory Spec2Isabelle
  imports Complex_Main "HOL-Library.Sublist"
begin

section \<open>Data model of the Chrome remote-debugging session controller (cdp.js)\<close>

text \<open>
  A JavaScript number that may be \<^verbatim>\<open>undefined\<close>: \<open>None\<close> is \<^verbatim>\<open>undefined\<close>,
  \<open>Some n\<close> is the number \<open>n\<close>. Window dimensions are pixel counts, so the numbers are
  integers.
\<close>

type_synonym jsnum = "int option"

text \<open>An entry of the list returned by \<^verbatim>\<open>remoteChrome.listTabs\<close>: its \<^verbatim>\<open>type\<close>,
  \<^verbatim>\<open>url\<close> and \<^verbatim>\<open>id\<close> properties.\<close>

record cdp_tab =
  tab_type :: string
  url :: string
  tab_id :: string

text \<open>The handle resolved by \<^verbatim>\<open>remoteChrome({ target, port })\<close>; it is opaque to cdp.js.\<close>

datatype cdp_client = Client nat

text \<open>\<^verbatim>\<open>runtimeInfo.config\<close>. The properties \<^verbatim>\<open>userAgent\<close>, \<^verbatim>\<open>touch\<close>, \<^verbatim>\<open>width\<close> and
  \<^verbatim>\<open>height\<close> may be \<^verbatim>\<open>undefined\<close> (the code tests the first two against \<^verbatim>\<open>void 0\<close>
  and the last two with \<^verbatim>\<open>||\<close>); \<open>cfg_width\<close> and \<open>cfg_height\<close> are \<^verbatim>\<open>config.width\<close>
  and \<^verbatim>\<open>config.height\<close>.\<close>

record chrome_config =
  scaleFactor :: rat
  mobile :: bool
  touch :: "bool option"
  userAgent :: "string option"
  headless :: bool
  emulation :: bool
  cfg_width :: jsnum
  cfg_height :: jsnum

text \<open>The shape of both \<^verbatim>\<open>runtimeInfo.viewportSize\<close> and the \<^verbatim>\<open>newDimensions\<close> argument
  of \<^verbatim>\<open>resizeWindow\<close>.\<close>

record dimensions =
  width :: jsnum
  height :: jsnum

record runtimeInfo =
  browserId :: string
  cdpPort :: nat
  config :: chrome_config
  tab :: "cdp_tab option"
  client :: "cdp_client option"
  viewportSize :: dimensions

subsection \<open>Errors and the external collaborators\<close>

text \<open>
  \<open>TypeError\<close> is what JavaScript raises on a property access through \<^verbatim>\<open>undefined\<close>
  (\<^verbatim>\<open>client.Emulation\<close> with no client); \<open>Rejection\<close> is a promise rejected by one of the
  external libraries (chrome-remote-interface, testcafe-browser-tools).
\<close>

datatype error = TypeError | Rejection string

text \<open>Every call that cdp.js makes into an external library, with its arguments.\<close>

datatype call =
    ListTabs nat
  | RemoteChrome cdp_tab nat
  | PageEnable cdp_client
  | NetworkEnable cdp_client
  | SetUserAgentOverride cdp_client string
  | SetTouchEmulationEnabled cdp_client bool string
  | SetDeviceMetricsOverride cdp_client jsnum jsnum rat bool bool
  | SetVisibleSize cdp_client jsnum jsnum
  | BrowserToolsResize string jsnum jsnum jsnum jsnum

text \<open>A call that was made, with the error it was rejected with (\<open>None\<close>: it resolved).\<close>

type_synonym event = "call \<times> error option"

text \<open>
  The external world decides how each call ends. Its answer may depend on everything
  that happened before, so it takes the trace of earlier events.
\<close>

record env =
  listTabs_result :: "event list \<Rightarrow> nat \<Rightarrow> error + cdp_tab list"
  remoteChrome_result :: "event list \<Rightarrow> cdp_tab \<Rightarrow> nat \<Rightarrow> error + cdp_client"
  call_result :: "event list \<Rightarrow> call \<Rightarrow> error option"

text \<open>The mutable \<^verbatim>\<open>runtimeInfo\<close> object together with the trace of external calls.\<close>

record world =
  info :: runtimeInfo
  trace :: "event list"

type_synonym 'a prog = "world \<Rightarrow> (error + 'a) \<times> world"

text \<open>\<^verbatim>\<open>var x = await f; g(x)\<close>: a rejection of \<open>f\<close> is thrown on and skips \<open>g\<close>; the
  mutations made so far stay.\<close>

definition await_then :: "'a prog \<Rightarrow> ('a \<Rightarrow> 'b prog) \<Rightarrow> 'b prog" where
  "await_then f g s = (case f s of (Inl e, s') \<Rightarrow> (Inl e, s') | (Inr x, s') \<Rightarrow> g x s')"

definition return :: "'a \<Rightarrow> 'a prog" where
  "return x s = (Inr x, s)"

definition throw :: "error \<Rightarrow> 'a prog" where
  "throw e s = (Inl e, s)"

definition log_event :: "call \<Rightarrow> error option \<Rightarrow> world \<Rightarrow> world" where
  "log_event c r s = s\<lparr>trace := trace s @ [(c, r)]\<rparr>"

text \<open>A call whose resolved value is not used.\<close>

definition rpc :: "env \<Rightarrow> call \<Rightarrow> unit prog" where
  "rpc e c s =
     (let r = call_result e (trace s) c
      in ((case r of None \<Rightarrow> Inr () | Some err \<Rightarrow> Inl err), log_event c r s))"

text \<open>\<^verbatim>\<open>remoteChrome.listTabs({ port: cdpPort })\<close>\<close>

definition listTabs :: "env \<Rightarrow> nat \<Rightarrow> cdp_tab list prog" where
  "listTabs e port s =
     (let r = listTabs_result e (trace s) port
      in (r, log_event (ListTabs port) (case r of Inl err \<Rightarrow> Some err | Inr _ \<Rightarrow> None) s))"

text \<open>\<^verbatim>\<open>remoteChrome({ target: tab, port: cdpPort })\<close>\<close>

definition remoteChrome :: "env \<Rightarrow> cdp_tab \<Rightarrow> nat \<Rightarrow> cdp_client prog" where
  "remoteChrome e t port s =
     (let r = remoteChrome_result e (trace s) t port
      in (r, log_event (RemoteChrome t port) (case r of Inl err \<Rightarrow> Some err | Inr _ \<Rightarrow> None) s))"

subsection \<open>JavaScript operators used by the code\<close>

text \<open>\<^verbatim>\<open>a || b\<close> on numbers: \<^verbatim>\<open>undefined\<close> and \<^verbatim>\<open>0\<close> are falsy.\<close>

definition truthy :: "jsnum \<Rightarrow> bool" where
  "truthy a = (case a of None \<Rightarrow> False | Some n \<Rightarrow> n \<noteq> 0)"

definition js_or :: "jsnum \<Rightarrow> jsnum \<Rightarrow> jsnum" where
  "js_or a b = (if truthy a then a else b)"

text \<open>\<^verbatim>\<open>s.indexOf(p)\<close>: the index of the first occurrence of \<open>p\<close> in \<open>s\<close>, or \<open>-1\<close>.\<close>

fun indexOf_from :: "string \<Rightarrow> string \<Rightarrow> int \<Rightarrow> int" where
  "indexOf_from [] p i = (if p = [] then i else - 1)"
| "indexOf_from (c # cs) p i = (if prefix p (c # cs) then i else indexOf_from cs p (i + 1))"

definition indexOf :: "string \<Rightarrow> string \<Rightarrow> int" where
  "indexOf s p = indexOf_from s p 0"

text \<open>The value of \<^verbatim>\<open>tab && config.headless\<close>: the left operand when it is falsy
  (\<^verbatim>\<open>undefined\<close>), the right operand otherwise.\<close>

datatype jsbool = JUndefined | JBool bool

section \<open>The operations of cdp.js\<close>

text \<open>Line 8: \<^verbatim>\<open>tabs.filter(t => t.type === 'page' && t.url.indexOf(browserId) > -1)[0]\<close>;
  element 0 of an empty array is \<^verbatim>\<open>undefined\<close>.\<close>

definition matchesTab :: "string \<Rightarrow> cdp_tab \<Rightarrow> bool" where
  "matchesTab bid t = (tab_type t = ''page'' \<and> indexOf (url t) bid > - 1)"

definition firstMatch :: "cdp_tab list \<Rightarrow> string \<Rightarrow> cdp_tab option" where
  "firstMatch tabs bid = (case filter (matchesTab bid) tabs of [] \<Rightarrow> None | t # _ \<Rightarrow> Some t)"

definition getActiveTab :: "env \<Rightarrow> nat \<Rightarrow> string \<Rightarrow> cdp_tab option prog" where
  "getActiveTab e port bid =
     await_then (listTabs e port) (\<lambda>tabs. return (firstMatch tabs bid))"

definition setEmulationBounds :: "env \<Rightarrow> unit prog" where
  "setEmulationBounds e s =
     (case client (info s) of
        None \<Rightarrow> throw TypeError s
      | Some cl \<Rightarrow>
          await_then
            (rpc e (SetDeviceMetricsOverride cl
                      (width (viewportSize (info s))) (height (viewportSize (info s)))
                      (scaleFactor (config (info s))) (mobile (config (info s))) False))
            (\<lambda>_. rpc e (SetVisibleSize cl
                      (width (viewportSize (info s))) (height (viewportSize (info s))))) s)"

definition resizeWindow :: "env \<Rightarrow> dimensions \<Rightarrow> unit prog" where
  "resizeWindow e newDimensions s =
     (let cfg = config (info s);
          currentWidth = width (viewportSize (info s));
          currentHeight = height (viewportSize (info s));
          newWidth = js_or (width newDimensions) currentWidth;
          newHeight = js_or (height newDimensions) currentHeight
      in await_then
           (if \<not> headless cfg
            then rpc e (BrowserToolsResize (browserId (info s))
                          currentWidth currentHeight newWidth newHeight)
            else return ())
           (\<lambda>_ s1.
              (let s2 = s1\<lparr>info := (info s1)
                         \<lparr>viewportSize := \<lparr>width = newWidth, height = newHeight\<rparr>\<rparr>\<rparr>
               in if emulation cfg then setEmulationBounds e s2 else return () s2)) s)"

definition setEmulation :: "env \<Rightarrow> unit prog" where
  "setEmulation e s =
     (let cl = client (info s); cfg = config (info s)
      in await_then
           (case userAgent cfg of
              None \<Rightarrow> return ()
            | Some ua \<Rightarrow>
                (case cl of None \<Rightarrow> throw TypeError
                 | Some c \<Rightarrow> rpc e (SetUserAgentOverride c ua)))
           (\<lambda>_. await_then
              (case touch cfg of
                 None \<Rightarrow> return ()
               | Some en \<Rightarrow>
                   (case cl of None \<Rightarrow> throw TypeError
                    | Some c \<Rightarrow> rpc e (SetTouchEmulationEnabled c en
                                         (if mobile cfg then ''mobile'' else ''desktop''))))
              (\<lambda>_. resizeWindow e \<lparr>width = cfg_width cfg, height = cfg_height cfg\<rparr>)) s)"

definition createClient :: "env \<Rightarrow> unit prog" where
  "createClient e s =
     (let cfg = config (info s); port = cdpPort (info s)
      in case getActiveTab e port (browserId (info s)) s of
           (Inl err, s1) \<Rightarrow> (Inl err, s1)
         | (Inr None, s1) \<Rightarrow> (Inr (), s1)
         | (Inr (Some t), s1) \<Rightarrow>
             (case remoteChrome e t port s1 of
                (Inl err, s2) \<Rightarrow> (Inr (), s2)
              | (Inr cl, s2) \<Rightarrow>
                  await_then (rpc e (PageEnable cl))
                    (\<lambda>_. await_then (rpc e (NetworkEnable cl))
                       (\<lambda>_. if emulation cfg then setEmulation e else return ()))
                    (s2\<lparr>info := (info s2)\<lparr>tab := Some t, client := Some cl\<rparr>\<rparr>)))"

definition isHeadlessTab :: "runtimeInfo \<Rightarrow> jsbool" where
  "isHeadlessTab r = (case tab r of None \<Rightarrow> JUndefined | Some _ \<Rightarrow> JBool (headless (config r)))"

section \<open>Notions used to state the properties\<close>

text \<open>The size that \<^verbatim>\<open>resizeWindow\<close> computes in lines 85 and 86, and the call of line 90.\<close>

definition newSize :: "dimensions \<Rightarrow> world \<Rightarrow> dimensions" where
  "newSize nd s = \<lparr>width = js_or (width nd) (width (viewportSize (info s))),
                   height = js_or (height nd) (height (viewportSize (info s)))\<rparr>"

definition osResizeCall :: "dimensions \<Rightarrow> world \<Rightarrow> call" where
  "osResizeCall nd s = BrowserToolsResize (browserId (info s))
      (width (viewportSize (info s))) (height (viewportSize (info s)))
      (width (newSize nd s)) (height (newSize nd s))"

text \<open>The two calls of \<^verbatim>\<open>setEmulationBounds\<close> for a client and a viewport size.\<close>

definition metricsCall :: "cdp_client \<Rightarrow> chrome_config \<Rightarrow> dimensions \<Rightarrow> call" where
  "metricsCall cl cfg d =
     SetDeviceMetricsOverride cl (width d) (height d) (scaleFactor cfg) (mobile cfg) False"

definition visibleSizeCall :: "cdp_client \<Rightarrow> dimensions \<Rightarrow> call" where
  "visibleSizeCall cl d = SetVisibleSize cl (width d) (height d)"

text \<open>The events, and the calls, that an operation added to the trace on its way from
  \<open>s\<close> to \<open>s'\<close>.\<close>

definition events_since :: "world \<Rightarrow> world \<Rightarrow> event list" where
  "events_since s s' = drop (length (trace s)) (trace s')"

definition calls_since :: "world \<Rightarrow> world \<Rightarrow> call list" where
  "calls_since s s' = map fst (events_since s s')"

fun isOsResize :: "call \<Rightarrow> bool" where
  "isOsResize (BrowserToolsResize _ _ _ _ _) = True"
| "isOsResize _ = False"

fun isMetricsOverride :: "call \<Rightarrow> bool" where
  "isMetricsOverride (SetDeviceMetricsOverride _ _ _ _ _ _) = True"
| "isMetricsOverride _ = False"

fun isPageEnable :: "call \<Rightarrow> bool" where
  "isPageEnable (PageEnable _) = True"
| "isPageEnable _ = False"

fun isNetworkEnable :: "call \<Rightarrow> bool" where
  "isNetworkEnable (NetworkEnable _) = True"
| "isNetworkEnable _ = False"

text \<open>Calls that act on an open channel: enabling a domain or applying an emulation
  setting.\<close>

fun isChannelCall :: "call \<Rightarrow> bool" where
  "isChannelCall (ListTabs _) = False"
| "isChannelCall (RemoteChrome _ _) = False"
| "isChannelCall (BrowserToolsResize _ _ _ _ _) = False"
| "isChannelCall _ = True"

text \<open>Both protocol domains have been enabled on a channel: the two calls were made
  and resolved.\<close>

definition domainsEnabled :: "cdp_client \<Rightarrow> event list \<Rightarrow> bool" where
  "domainsEnabled cl tr = ((PageEnable cl, None) \<in> set tr \<and> (NetworkEnable cl, None) \<in> set tr)"

text \<open>An operation that goes from \<open>s\<close> to \<open>s'\<close> only adds to the trace and leaves the
  \<^verbatim>\<open>tab\<close> and \<^verbatim>\<open>client\<close> properties alone.\<close>

definition keeps_session :: "world \<Rightarrow> world \<Rightarrow> bool" where
  "keeps_session s s' = (prefix (trace s) (trace s')
     \<and> client (info s') = client (info s) \<and> tab (info s') = tab (info s))"

text \<open>The state of \<^verbatim>\<open>createClient\<close> after lines 56 and 57: the tab list was fetched, the
  channel to tab \<open>t\<close> was opened as \<open>cl\<close>, and both were stored in \<^verbatim>\<open>runtimeInfo\<close>.\<close>

definition opened :: "world \<Rightarrow> cdp_tab \<Rightarrow> cdp_client \<Rightarrow> world" where
  "opened s t cl = (log_event (RemoteChrome t (cdpPort (info s))) None
                      (log_event (ListTabs (cdpPort (info s))) None s))
                   \<lparr>info := (info s)\<lparr>tab := Some t, client := Some cl\<rparr>\<rparr>"

section \<open>Concrete sessions and environments\<close>

definition tab_worker :: cdp_tab where
  "tab_worker = \<lparr>tab_type = ''service_worker'',
                  url = ''http://localhost:1337/browser/connect/abc123/sw.js'', tab_id = ''W''\<rparr>"

definition tab_blank :: cdp_tab where
  "tab_blank = \<lparr>tab_type = ''page'', url = ''about:blank'', tab_id = ''B''\<rparr>"

definition tab_session :: cdp_tab where
  "tab_session = \<lparr>tab_type = ''page'',
                   url = ''http://localhost:1337/browser/connect/abc123'', tab_id = ''S''\<rparr>"

definition tab_idle :: cdp_tab where
  "tab_idle = \<lparr>tab_type = ''page'',
                url = ''http://localhost:1337/browser/connect/abc123/idle'', tab_id = ''I''\<rparr>"

definition listed_tabs :: "cdp_tab list" where
  "listed_tabs = [tab_worker, tab_blank, tab_session, tab_idle]"

definition scenario_config :: chrome_config where
  "scenario_config = \<lparr>scaleFactor = 1, mobile = False, touch = None, userAgent = None,
     headless = False, emulation = True, cfg_width = Some 1024, cfg_height = Some 768\<rparr>"

definition fresh_info :: runtimeInfo where
  "fresh_info = \<lparr>browserId = ''abc123'', cdpPort = 9222, config = scenario_config,
     tab = None, client = None, viewportSize = \<lparr>width = Some 1280, height = Some 720\<rparr>\<rparr>"

definition fresh_world :: world where
  "fresh_world = \<lparr>info = fresh_info, trace = []\<rparr>"

definition connected_info :: runtimeInfo where
  "connected_info = \<lparr>browserId = ''abc123'', cdpPort = 9222, config = scenario_config,
     tab = Some tab_session, client = Some (Client 1),
     viewportSize = \<lparr>width = Some 1024, height = Some 768\<rparr>\<rparr>"

definition connected_world :: world where
  "connected_world = \<lparr>info = connected_info, trace = []\<rparr>"

definition headless_world :: world where
  "headless_world =
     \<lparr>info = connected_info\<lparr>config := scenario_config\<lparr>headless := True\<rparr>\<rparr>, trace = []\<rparr>"

definition only_width_800 :: dimensions where
  "only_width_800 = \<lparr>width = Some 800, height = None\<rparr>"

definition only_width_0 :: dimensions where
  "only_width_0 = \<lparr>width = Some 0, height = None\<rparr>"

definition only_height_600 :: dimensions where
  "only_height_600 = \<lparr>width = None, height = Some 600\<rparr>"

definition listTabs_ok :: "event list \<Rightarrow> nat \<Rightarrow> error + cdp_tab list" where
  "listTabs_ok tr port = Inr listed_tabs"

definition listTabs_none :: "event list \<Rightarrow> nat \<Rightarrow> error + cdp_tab list" where
  "listTabs_none tr port = Inr [tab_worker, tab_blank]"

definition remoteChrome_ok :: "event list \<Rightarrow> cdp_tab \<Rightarrow> nat \<Rightarrow> error + cdp_client" where
  "remoteChrome_ok tr t port = Inr (Client 1)"

definition remoteChrome_refused :: "event list \<Rightarrow> cdp_tab \<Rightarrow> nat \<Rightarrow> error + cdp_client" where
  "remoteChrome_refused tr t port = Inl (Rejection ''ECONNREFUSED'')"

definition all_resolve :: "event list \<Rightarrow> call \<Rightarrow> error option" where
  "all_resolve tr c = None"

definition os_resize_rejects :: "event list \<Rightarrow> call \<Rightarrow> error option" where
  "os_resize_rejects tr c = (if isOsResize c then Some (Rejection ''resize failed'') else None)"

definition metrics_rejects :: "event list \<Rightarrow> call \<Rightarrow> error option" where
  "metrics_rejects tr c = (if isMetricsOverride c then Some (Rejection ''override failed'') else None)"

definition page_enable_rejects :: "event list \<Rightarrow> call \<Rightarrow> error option" where
  "page_enable_rejects tr c = (if isPageEnable c then Some (Rejection ''target closed'') else None)"

definition network_enable_rejects :: "event list \<Rightarrow> call \<Rightarrow> error option" where
  "network_enable_rejects tr c = (if isNetworkEnable c then Some (Rejection ''socket hang up'') else None)"

definition env_ok :: env where
  "env_ok = \<lparr>listTabs_result = listTabs_ok, remoteChrome_result = remoteChrome_ok,
              call_result = all_resolve\<rparr>"

definition env_no_page :: env where
  "env_no_page = \<lparr>listTabs_result = listTabs_none, remoteChrome_result = remoteChrome_ok,
              call_result = all_resolve\<rparr>"

definition env_refused :: env where
  "env_refused = \<lparr>listTabs_result = listTabs_ok, remoteChrome_result = remoteChrome_refused,
              call_result = all_resolve\<rparr>"

definition env_os_resize_fails :: env where
  "env_os_resize_fails = \<lparr>listTabs_result = listTabs_ok, remoteChrome_result = remoteChrome_ok,
              call_result = os_resize_rejects\<rparr>"

definition env_metrics_fails :: env where
  "env_metrics_fails = \<lparr>listTabs_result = listTabs_ok, remoteChrome_result = remoteChrome_ok,
              call_result = metrics_rejects\<rparr>"

definition env_page_enable_fails :: env where
  "env_page_enable_fails = \<lparr>listTabs_result = listTabs_ok, remoteChrome_result = remoteChrome_ok,
              call_result = page_enable_rejects\<rparr>"

definition env_network_enable_fails :: env where
  "env_network_enable_fails = \<lparr>listTabs_result = listTabs_ok, remoteChrome_result = remoteChrome_ok,
              call_result = network_enable_rejects\<rparr>"

lemmas fixture_defs =
  tab_worker_def tab_blank_def tab_session_def tab_idle_def listed_tabs_def scenario_config_def
  fresh_info_def fresh_world_def connected_info_def connected_world_def headless_world_def
  only_width_800_def only_width_0_def only_height_600_def
  listTabs_ok_def listTabs_none_def remoteChrome_ok_def remoteChrome_refused_def
  all_resolve_def os_resize_rejects_def metrics_rejects_def page_enable_rejects_def
  env_ok_def env_no_page_def env_refused_def env_os_resize_fails_def env_metrics_fails_def
  env_page_enable_fails_def network_enable_rejects_def env_network_enable_fails_def

section \<open>Basic facts about the building blocks\<close>

lemma info_log_event [simp]: "info (log_event c r s) = info s"
  by (simp add: log_event_def)

lemma trace_log_event [simp]: "trace (log_event c r s) = trace s @ [(c, r)]"
  by (simp add: log_event_def)

lemma rpc_resolved:
  "call_result e (trace s) c = None \<Longrightarrow> rpc e c s = (Inr (), log_event c None s)"
  by (simp add: rpc_def)

lemma rpc_rejected:
  "call_result e (trace s) c = Some err \<Longrightarrow> rpc e c s = (Inl err, log_event c (Some err) s)"
  by (simp add: rpc_def)

lemma info_rpc [simp]: "info (snd (rpc e c s)) = info s"
  by (simp add: rpc_def Let_def)

lemma trace_rpc: "trace (snd (rpc e c s)) = trace s @ [(c, call_result e (trace s) c)]"
  by (simp add: rpc_def Let_def)

subsection \<open>Substring search and the tab filter\<close>

lemma indexOf_from_sublist: "0 \<le> i \<Longrightarrow> (indexOf_from s p i > - 1) = sublist p s"
proof (induction s arbitrary: i)
  case Nil
  then show ?case by auto
next
  case (Cons c cs)
  show ?case
  proof (cases "prefix p (c # cs)")
    case True
    with Cons.prems show ?thesis by (auto simp: sublist_Cons_right)
  next
    case False
    have "0 \<le> i + 1" using Cons.prems by simp
    from Cons.IH [OF this] False show ?thesis
      by (simp add: sublist_Cons_right)
  qed
qed

lemma indexOf_sublist: "(indexOf s p > - 1) = sublist p s"
  by (simp add: indexOf_def indexOf_from_sublist)

lemma matchesTab_iff: "matchesTab bid t = (tab_type t = ''page'' \<and> sublist bid (url t))"
  by (simp add: matchesTab_def indexOf_sublist)

lemma firstMatch_find: "firstMatch tabs bid = List.find (matchesTab bid) tabs"
  by (induction tabs) (auto simp: firstMatch_def)

lemma find_Some_split:
  "(List.find P xs = Some x) = (\<exists>pre post. xs = pre @ x # post \<and> P x \<and> (\<forall>u\<in>set pre. \<not> P u))"
proof (induction xs)
  case Nil
  then show ?case by simp
next
  case (Cons a xs)
  show ?case
  proof (cases "P a")
    case True
    have "(\<exists>pre post. a # xs = pre @ x # post \<and> P x \<and> (\<forall>u\<in>set pre. \<not> P u)) = (a = x)"
    proof
      assume "\<exists>pre post. a # xs = pre @ x # post \<and> P x \<and> (\<forall>u\<in>set pre. \<not> P u)"
      then obtain pre post where h: "a # xs = pre @ x # post" "\<forall>u\<in>set pre. \<not> P u" by blast
      show "a = x"
      proof (cases pre)
        case Nil
        with h show ?thesis by simp
      next
        case (Cons b bs)
        with h True show ?thesis by auto
      qed
    next
      assume "a = x"
      with True have "a # xs = [] @ x # xs \<and> P x \<and> (\<forall>u\<in>set []. \<not> P u)" by simp
      then show "\<exists>pre post. a # xs = pre @ x # post \<and> P x \<and> (\<forall>u\<in>set pre. \<not> P u)" by blast
    qed
    with True show ?thesis by simp
  next
    case False
    have "(\<exists>pre post. a # xs = pre @ x # post \<and> P x \<and> (\<forall>u\<in>set pre. \<not> P u))
        = (\<exists>pre post. xs = pre @ x # post \<and> P x \<and> (\<forall>u\<in>set pre. \<not> P u))"
    proof
      assume "\<exists>pre post. a # xs = pre @ x # post \<and> P x \<and> (\<forall>u\<in>set pre. \<not> P u)"
      then obtain pre post where h: "a # xs = pre @ x # post" "P x" "\<forall>u\<in>set pre. \<not> P u" by blast
      show "\<exists>pre post. xs = pre @ x # post \<and> P x \<and> (\<forall>u\<in>set pre. \<not> P u)"
      proof (cases pre)
        case Nil
        with h False show ?thesis by simp
      next
        case (Cons b bs)
        with h have "xs = bs @ x # post \<and> P x \<and> (\<forall>u\<in>set bs. \<not> P u)" by simp
        then show ?thesis by blast
      qed
    next
      assume "\<exists>pre post. xs = pre @ x # post \<and> P x \<and> (\<forall>u\<in>set pre. \<not> P u)"
      then obtain pre post where h: "xs = pre @ x # post" "P x" "\<forall>u\<in>set pre. \<not> P u" by blast
      with False have "a # xs = (a # pre) @ x # post \<and> P x \<and> (\<forall>u\<in>set (a # pre). \<not> P u)" by simp
      then show "\<exists>pre post. a # xs = pre @ x # post \<and> P x \<and> (\<forall>u\<in>set pre. \<not> P u)" by blast
    qed
    with False Cons.IH show ?thesis by simp
  qed
qed

lemma getActiveTab_listed:
  "listTabs_result e (trace s) port = Inr tabs \<Longrightarrow>
   getActiveTab e port bid s = (Inr (firstMatch tabs bid), log_event (ListTabs port) None s)"
  by (simp add: getActiveTab_def await_then_def listTabs_def return_def Let_def)

lemma getActiveTab_rejected:
  "listTabs_result e (trace s) port = Inl err \<Longrightarrow>
   getActiveTab e port bid s = (Inl err, log_event (ListTabs port) (Some err) s)"
  by (simp add: getActiveTab_def await_then_def listTabs_def return_def Let_def)

subsection \<open>The steps of resizeWindow\<close>

lemma info_setEmulationBounds [simp]: "info (snd (setEmulationBounds e s)) = info s"
  by (simp add: setEmulationBounds_def await_then_def throw_def rpc_def Let_def
           split: option.splits prod.splits sum.splits)

lemma resizeWindow_os_rejected:
  assumes "\<not> headless (config (info s))"
    and "call_result e (trace s) (osResizeCall nd s) = Some err"
  shows "resizeWindow e nd s = (Inl err, log_event (osResizeCall nd s) (Some err) s)"
  using assms
  by (simp add: resizeWindow_def await_then_def osResizeCall_def newSize_def rpc_def Let_def)

lemma resizeWindow_os_resolved:
  assumes "\<not> headless (config (info s))"
    and "call_result e (trace s) (osResizeCall nd s) = None"
  shows "resizeWindow e nd s =
     (let s2 = (log_event (osResizeCall nd s) None s)\<lparr>info := (info s)\<lparr>viewportSize := newSize nd s\<rparr>\<rparr>
      in if emulation (config (info s)) then setEmulationBounds e s2 else (Inr (), s2))"
  using assms
  by (simp add: resizeWindow_def await_then_def osResizeCall_def newSize_def rpc_def Let_def return_def)

lemma resizeWindow_headless:
  assumes "headless (config (info s))"
  shows "resizeWindow e nd s =
     (let s2 = s\<lparr>info := (info s)\<lparr>viewportSize := newSize nd s\<rparr>\<rparr>
      in if emulation (config (info s)) then setEmulationBounds e s2 else (Inr (), s2))"
  using assms
  by (simp add: resizeWindow_def await_then_def osResizeCall_def newSize_def rpc_def Let_def return_def)

lemma setEmulationBounds_client:
  assumes "client (info s) = Some cl"
  shows "setEmulationBounds e s =
     (case call_result e (trace s) (metricsCall cl (config (info s)) (viewportSize (info s))) of
        Some err \<Rightarrow> (Inl err, log_event (metricsCall cl (config (info s)) (viewportSize (info s))) (Some err) s)
      | None \<Rightarrow> rpc e (visibleSizeCall cl (viewportSize (info s)))
                 (log_event (metricsCall cl (config (info s)) (viewportSize (info s))) None s))"
  using assms
  by (simp add: setEmulationBounds_def await_then_def rpc_def metricsCall_def visibleSizeCall_def Let_def
           split: option.splits)

lemma setEmulationBounds_no_client:
  "client (info s) = None \<Longrightarrow> setEmulationBounds e s = (Inl TypeError, s)"
  by (simp add: setEmulationBounds_def throw_def)

lemma trace_setEmulationBounds:
  "\<exists>new. trace (snd (setEmulationBounds e s)) = trace s @ new \<and> (\<forall>c\<in>set (map fst new). \<not> isOsResize c)"
proof (cases "client (info s)")
  case None
  then show ?thesis by (simp add: setEmulationBounds_no_client)
next
  case (Some cl)
  show ?thesis
    by (simp add: setEmulationBounds_client [OF Some] rpc_def Let_def metricsCall_def visibleSizeCall_def
          split: option.splits)
qed

lemma info_resizeWindow:
  "info (snd (resizeWindow e nd s)) = info s \<or>
   info (snd (resizeWindow e nd s)) = (info s)\<lparr>viewportSize := newSize nd s\<rparr>"
proof (cases "headless (config (info s))")
  case True
  then show ?thesis by (simp add: resizeWindow_headless Let_def return_def)
next
  case False
  show ?thesis
  proof (cases "call_result e (trace s) (osResizeCall nd s)")
    case None
    with False show ?thesis by (simp add: resizeWindow_os_resolved Let_def)
  next
    case (Some err)
    with False show ?thesis by (simp add: resizeWindow_os_rejected)
  qed
qed

lemma trace_resizeWindow: "prefix (trace s) (trace (snd (resizeWindow e nd s)))"
proof (cases "headless (config (info s))")
  case True
  obtain new where "trace (snd (setEmulationBounds e (s\<lparr>info := (info s)\<lparr>viewportSize := newSize nd s\<rparr>\<rparr>))) = trace s @ new"
    using trace_setEmulationBounds [of e "s\<lparr>info := (info s)\<lparr>viewportSize := newSize nd s\<rparr>\<rparr>"] by auto
  with True show ?thesis by (simp add: resizeWindow_headless Let_def)
next
  case False
  show ?thesis
  proof (cases "call_result e (trace s) (osResizeCall nd s)")
    case None
    let ?s2 = "(log_event (osResizeCall nd s) None s)\<lparr>info := (info s)\<lparr>viewportSize := newSize nd s\<rparr>\<rparr>"
    obtain new where "trace (snd (setEmulationBounds e ?s2)) = trace ?s2 @ new"
      using trace_setEmulationBounds [of e ?s2] by auto
    with None False show ?thesis by (simp add: resizeWindow_os_resolved Let_def log_event_def)
  next
    case (Some err)
    with False show ?thesis by (simp add: resizeWindow_os_rejected)
  qed
qed

lemma prefix_events_since: "prefix (trace s) (trace s') \<Longrightarrow> trace s' = trace s @ events_since s s'"
  by (auto simp: events_since_def prefix_def)

lemma events_since_append [simp]: "trace s' = trace s @ new \<Longrightarrow> events_since s s' = new"
  by (simp add: events_since_def)

subsection \<open>The steps of createClient\<close>

lemma keeps_session_refl [simp]: "keeps_session s s"
  by (simp add: keeps_session_def)

lemma keeps_session_trans: "keeps_session s t \<Longrightarrow> keeps_session t u \<Longrightarrow> keeps_session s u"
  by (auto simp: keeps_session_def)

lemma keeps_session_rpc: "keeps_session s (snd (rpc e c s))"
  by (simp add: keeps_session_def trace_rpc)

lemma keeps_session_await_then:
  assumes "\<And>s. keeps_session s (snd (f s))" and "\<And>x s. keeps_session s (snd (g x s))"
  shows "keeps_session s (snd (await_then f g s))"
proof (cases "f s")
  case (Pair r s1)
  have k1: "keeps_session s s1" using assms(1) [of s] Pair by simp
  show ?thesis
  proof (cases r)
    case (Inl err)
    with Pair k1 show ?thesis by (simp add: await_then_def)
  next
    case (Inr x)
    have "keeps_session s1 (snd (g x s1))" by (rule assms(2))
    with k1 have "keeps_session s (snd (g x s1))" by (rule keeps_session_trans)
    with Pair Inr show ?thesis by (simp add: await_then_def)
  qed
qed

lemma keeps_session_resizeWindow: "keeps_session s (snd (resizeWindow e nd s))"
  using info_resizeWindow [of e nd s] trace_resizeWindow [of s e nd]
  by (auto simp: keeps_session_def)

lemma keeps_session_setEmulation: "keeps_session s (snd (setEmulation e s))"
proof -
  let ?cfg = "config (info s)" and ?cl = "client (info s)"
  let ?A = "case userAgent ?cfg of None \<Rightarrow> return ()
            | Some ua \<Rightarrow> (case ?cl of None \<Rightarrow> throw TypeError | Some c \<Rightarrow> rpc e (SetUserAgentOverride c ua))"
  let ?B = "case touch ?cfg of None \<Rightarrow> return ()
            | Some en \<Rightarrow> (case ?cl of None \<Rightarrow> throw TypeError
                 | Some c \<Rightarrow> rpc e (SetTouchEmulationEnabled c en (if mobile ?cfg then ''mobile'' else ''desktop'')))"
  have A: "keeps_session t (snd (?A t))" for t
    by (simp add: return_def throw_def keeps_session_rpc split: option.splits)
  have B: "keeps_session t (snd (?B t))" for t
    by (simp add: return_def throw_def keeps_session_rpc split: option.splits)
  have "keeps_session s (snd (await_then ?A
          (\<lambda>_. await_then ?B (\<lambda>_. resizeWindow e \<lparr>width = cfg_width ?cfg, height = cfg_height ?cfg\<rparr>)) s))"
    by (intro keeps_session_await_then A B keeps_session_resizeWindow)
  then show ?thesis by (simp add: setEmulation_def Let_def)
qed

lemma createClient_no_tab:
  assumes "listTabs_result e (trace s) (cdpPort (info s)) = Inr tabs"
    and "firstMatch tabs (browserId (info s)) = None"
  shows "createClient e s = (Inr (), log_event (ListTabs (cdpPort (info s))) None s)"
  using assms by (simp add: createClient_def getActiveTab_listed Let_def)

lemma createClient_refused:
  assumes "listTabs_result e (trace s) (cdpPort (info s)) = Inr tabs"
    and "firstMatch tabs (browserId (info s)) = Some t"
    and "remoteChrome_result e (trace s @ [(ListTabs (cdpPort (info s)), None)]) t (cdpPort (info s)) = Inl err"
  shows "createClient e s = (Inr (), log_event (RemoteChrome t (cdpPort (info s))) (Some err)
                                    (log_event (ListTabs (cdpPort (info s))) None s))"
  using assms by (simp add: createClient_def getActiveTab_listed remoteChrome_def Let_def)

lemma createClient_opened:
  assumes "listTabs_result e (trace s) (cdpPort (info s)) = Inr tabs"
    and "firstMatch tabs (browserId (info s)) = Some t"
    and "remoteChrome_result e (trace s @ [(ListTabs (cdpPort (info s)), None)]) t (cdpPort (info s)) = Inr cl"
  shows "createClient e s =
     await_then (rpc e (PageEnable cl))
       (\<lambda>_. await_then (rpc e (NetworkEnable cl))
          (\<lambda>_. if emulation (config (info s)) then setEmulation e else return ()))
       (opened s t cl)"
  using assms by (simp add: createClient_def getActiveTab_listed remoteChrome_def Let_def opened_def)

lemma keeps_session_after_open:
  "keeps_session (opened s t cl)
     (snd (await_then (rpc e (PageEnable cl))
       (\<lambda>_. await_then (rpc e (NetworkEnable cl))
          (\<lambda>_. if emulation cfg then setEmulation e else return ()))
       (opened s t cl)))"
  by (intro keeps_session_await_then keeps_session_rpc)
     (simp add: keeps_session_setEmulation return_def)

lemma trace_opened [simp]:
  "trace (opened s t cl) = trace s @ [(ListTabs (cdpPort (info s)), None), (RemoteChrome t (cdpPort (info s)), None)]"
  by (simp add: opened_def)

lemma info_opened [simp]: "info (opened s t cl) = (info s)\<lparr>tab := Some t, client := Some cl\<rparr>"
  by (simp add: opened_def)

lemma createClient_page_enable_rejected:
  assumes "listTabs_result e (trace s) (cdpPort (info s)) = Inr tabs"
    and "firstMatch tabs (browserId (info s)) = Some t"
    and "remoteChrome_result e (trace s @ [(ListTabs (cdpPort (info s)), None)]) t (cdpPort (info s)) = Inr cl"
    and "call_result e (trace (opened s t cl)) (PageEnable cl) = Some err"
  shows "createClient e s = (Inl err, log_event (PageEnable cl) (Some err) (opened s t cl))"
  unfolding createClient_opened [OF assms(1,2,3)]
  by (simp add: await_then_def rpc_rejected [OF assms(4)])

lemma createClient_network_enable_rejected:
  assumes "listTabs_result e (trace s) (cdpPort (info s)) = Inr tabs"
    and "firstMatch tabs (browserId (info s)) = Some t"
    and "remoteChrome_result e (trace s @ [(ListTabs (cdpPort (info s)), None)]) t (cdpPort (info s)) = Inr cl"
    and "call_result e (trace (opened s t cl)) (PageEnable cl) = None"
    and "call_result e (trace (opened s t cl) @ [(PageEnable cl, None)]) (NetworkEnable cl) = Some err"
  shows "createClient e s
     = (Inl err, log_event (NetworkEnable cl) (Some err)
                   (log_event (PageEnable cl) None (opened s t cl)))"
proof -
  let ?s4 = "log_event (PageEnable cl) None (opened s t cl)"
  have ne: "call_result e (trace ?s4) (NetworkEnable cl) = Some err"
    using assms(5) by simp
  show ?thesis
    unfolding createClient_opened [OF assms(1,2,3)]
    by (simp add: await_then_def rpc_resolved [OF assms(4)] rpc_rejected [OF ne])
qed

lemma createClient_returned_enabled:
  assumes "listTabs_result e (trace s) (cdpPort (info s)) = Inr tabs"
    and "firstMatch tabs (browserId (info s)) = Some t"
    and "remoteChrome_result e (trace s @ [(ListTabs (cdpPort (info s)), None)]) t (cdpPort (info s)) = Inr cl"
    and "fst (createClient e s) = Inr ()"
  shows "\<exists>more. trace (snd (createClient e s))
           = trace (opened s t cl) @ [(PageEnable cl, None), (NetworkEnable cl, None)] @ more"
proof -
  let ?K = "\<lambda>_::unit. if emulation (config (info s)) then setEmulation e else return ()"
  let ?s3 = "opened s t cl"
  note cc = createClient_opened [OF assms(1,2,3)]
  show ?thesis
  proof (cases "call_result e (trace ?s3) (PageEnable cl)")
    case (Some err)
    from assms(4) show ?thesis
      unfolding cc by (simp add: await_then_def rpc_rejected [OF Some])
  next
    case None
    let ?s4 = "log_event (PageEnable cl) None ?s3"
    have c4: "createClient e s = await_then (rpc e (NetworkEnable cl)) ?K ?s4"
      unfolding cc by (simp add: await_then_def rpc_resolved [OF None])
    show ?thesis
    proof (cases "call_result e (trace ?s4) (NetworkEnable cl)")
      case (Some err)
      from assms(4) show ?thesis
        unfolding c4 by (simp add: await_then_def rpc_rejected [OF Some])
    next
      case None
      let ?s5 = "log_event (NetworkEnable cl) None ?s4"
      have c5: "createClient e s = ?K () ?s5"
        unfolding c4 by (simp add: await_then_def rpc_resolved [OF None])
      have "keeps_session ?s5 (snd (?K () ?s5))"
        by (simp add: keeps_session_setEmulation return_def)
      then have "prefix (trace ?s5) (trace (snd (createClient e s)))"
        unfolding c5 by (simp add: keeps_session_def)
      then obtain more where "trace (snd (createClient e s)) = trace ?s5 @ more"
        by (auto simp: prefix_def)
      then show ?thesis by simp
    qed
  qed
qed

lemma firstMatch_listed: "firstMatch listed_tabs ''abc123'' = Some tab_session"
  by (simp add: firstMatch_def matchesTab_def indexOf_def listed_tabs_def
        tab_worker_def tab_blank_def tab_session_def tab_idle_def)

lemma firstMatch_none_listed: "firstMatch [tab_worker, tab_blank] ''abc123'' = None"
  by (simp add: firstMatch_def matchesTab_def indexOf_def tab_worker_def tab_blank_def)

lemma fresh_world_facts:
  "trace fresh_world = []" "info fresh_world = fresh_info"
  "cdpPort fresh_info = 9222" "browserId fresh_info = ''abc123''"
  "client fresh_info = None" "tab fresh_info = None"
  by (simp_all add: fresh_world_def fresh_info_def)

lemma all_resolve_rpc:
  "\<forall>tr c. call_result e tr c = None \<Longrightarrow> rpc e c s = (Inr (), log_event c None s)"
  by (simp add: rpc_def)

lemma all_resolve_setEmulationBounds:
  assumes "\<forall>tr c. call_result e tr c = None" and "client (info s) = Some cl"
  shows "setEmulationBounds e s =
     (Inr (), log_event (visibleSizeCall cl (viewportSize (info s))) None
                (log_event (metricsCall cl (config (info s)) (viewportSize (info s))) None s))"
  using assms by (simp add: setEmulationBounds_client rpc_def)

lemma all_resolve_resizeWindow:
  assumes "\<forall>tr c. call_result e tr c = None" and "client (info s) = Some cl"
    and "\<not> headless (config (info s))" and "emulation (config (info s))"
  shows "resizeWindow e nd s =
     (Inr (), s\<lparr>info := (info s)\<lparr>viewportSize := newSize nd s\<rparr>,
               trace := trace s @ [(osResizeCall nd s, None),
                                   (metricsCall cl (config (info s)) (newSize nd s), None),
                                   (visibleSizeCall cl (newSize nd s), None)]\<rparr>)"
proof -
  let ?t = "(log_event (osResizeCall nd s) None s)\<lparr>info := (info s)\<lparr>viewportSize := newSize nd s\<rparr>\<rparr>"
  have os: "call_result e (trace s) (osResizeCall nd s) = None" using assms(1) by simp
  have cl: "client (info ?t) = Some cl" using assms(2) by simp
  have rw: "resizeWindow e nd s = setEmulationBounds e ?t"
    using assms(4) by (simp add: resizeWindow_os_resolved [OF assms(3) os] Let_def)
  show ?thesis
    unfolding rw all_resolve_setEmulationBounds [OF assms(1) cl]
    by (simp add: log_event_def)
qed

lemma all_resolve_setEmulation:
  assumes "\<forall>tr c. call_result e tr c = None" and "client (info s) = Some cl"
  shows "setEmulation e s
     = resizeWindow e \<lparr>width = cfg_width (config (info s)), height = cfg_height (config (info s))\<rparr>
         (s\<lparr>trace := trace s
              @ (case userAgent (config (info s)) of None \<Rightarrow> []
                 | Some ua \<Rightarrow> [(SetUserAgentOverride cl ua, None)])
              @ (case touch (config (info s)) of None \<Rightarrow> []
                 | Some en \<Rightarrow> [(SetTouchEmulationEnabled cl en
                                  (if mobile (config (info s)) then ''mobile'' else ''desktop''), None)])\<rparr>)"
  using assms
  by (cases "userAgent (config (info s))"; cases "touch (config (info s))")
     (simp_all add: setEmulation_def await_then_def return_def all_resolve_rpc log_event_def Let_def)

lemma createClient_all_resolve:
  assumes "listTabs_result e (trace s) (cdpPort (info s)) = Inr tabs"
    and "firstMatch tabs (browserId (info s)) = Some t"
    and "remoteChrome_result e (trace s @ [(ListTabs (cdpPort (info s)), None)]) t (cdpPort (info s)) = Inr cl"
    and "\<forall>tr c. call_result e tr c = None"
    and "\<not> headless (config (info s))" and "emulation (config (info s))"
  shows "fst (createClient e s) = Inr ()
     \<and> info (snd (createClient e s))
         = (info s)\<lparr>tab := Some t, client := Some cl,
                    viewportSize := \<lparr>width = js_or (cfg_width (config (info s))) (width (viewportSize (info s))),
                                     height = js_or (cfg_height (config (info s))) (height (viewportSize (info s)))\<rparr>\<rparr>"
proof -
  let ?s5 = "log_event (NetworkEnable cl) None (log_event (PageEnable cl) None (opened s t cl))"
  let ?init = "\<lparr>width = cfg_width (config (info ?s5)), height = cfg_height (config (info ?s5))\<rparr>"
  have c5: "createClient e s = setEmulation e ?s5"
    unfolding createClient_opened [OF assms(1,2,3)]
    using assms(6) by (simp add: await_then_def all_resolve_rpc [OF assms(4)])
  have cl5: "client (info ?s5) = Some cl" by simp
  obtain tr where tr: "setEmulation e ?s5 = resizeWindow e ?init (?s5\<lparr>trace := tr\<rparr>)"
    using all_resolve_setEmulation [OF assms(4) cl5] by blast
  let ?s6 = "?s5\<lparr>trace := tr\<rparr>"
  have f6: "client (info ?s6) = Some cl" "\<not> headless (config (info ?s6))"
      "emulation (config (info ?s6))"
    using assms(5,6) by simp_all
  show ?thesis
    unfolding c5 tr all_resolve_resizeWindow [OF assms(4) f6]
    by (simp add: newSize_def)
qed

section \<open>Tab resolution\<close>

text \<open>
  Claim C7. Tab resolution is a function of the page list that the endpoint returned:
  it yields the first page, in listing order, whose type is "page" and whose address
  contains the session marker as a substring. When the list is empty or holds no such
  page the result is the absent value, returned normally and not raised. The runtime
  information is not touched.
\<close>

theorem getActiveTab_first_match:
  assumes "listTabs_result e (trace s) port = Inr tabs"
  shows "fst (getActiveTab e port bid s)
           = Inr (List.find (\<lambda>t. tab_type t = ''page'' \<and> sublist bid (url t)) tabs)
       \<and> (\<forall>t. (fst (getActiveTab e port bid s) = Inr (Some t))
              = (\<exists>pre post. tabs = pre @ t # post
                   \<and> (tab_type t = ''page'' \<and> sublist bid (url t))
                   \<and> (\<forall>u\<in>set pre. \<not> (tab_type u = ''page'' \<and> sublist bid (url u)))))
       \<and> ((fst (getActiveTab e port bid s) = Inr None)
              = (\<forall>u\<in>set tabs. \<not> (tab_type u = ''page'' \<and> sublist bid (url u))))
       \<and> info (snd (getActiveTab e port bid s)) = info s"
proof -
  let ?P = "\<lambda>t. tab_type t = ''page'' \<and> sublist bid (url t)"
  have P: "matchesTab bid = ?P"
    by (rule ext) (simp add: matchesTab_iff)
  have r: "getActiveTab e port bid s = (Inr (List.find ?P tabs), log_event (ListTabs port) None s)"
    using getActiveTab_listed [OF assms, of bid] by (simp add: firstMatch_find P)
  have a: "fst (getActiveTab e port bid s) = Inr (List.find ?P tabs)"
    by (simp add: r)
  have b: "\<forall>t. (fst (getActiveTab e port bid s) = Inr (Some t))
              = (\<exists>pre post. tabs = pre @ t # post \<and> ?P t \<and> (\<forall>u\<in>set pre. \<not> ?P u))"
    by (simp only: a sum.inject find_Some_split [of ?P tabs]) simp
  have c: "(fst (getActiveTab e port bid s) = Inr None) = (\<forall>u\<in>set tabs. \<not> ?P u)"
    by (simp only: a sum.inject find_None_iff) blast
  have d: "info (snd (getActiveTab e port bid s)) = info s"
    by (simp add: r)
  from a b c d show ?thesis by blast
qed

theorem getActiveTab_first_match_witness:
  "listTabs_result env_ok (trace fresh_world) 9222 = Inr listed_tabs
   \<and> fst (getActiveTab env_ok 9222 ''abc123'' fresh_world) = Inr (Some tab_session)
   \<and> fst (getActiveTab env_no_page 9222 ''abc123'' fresh_world) = Inr None"
proof -
  have h1: "listTabs_result env_ok (trace fresh_world) 9222 = Inr listed_tabs"
    by (simp add: env_ok_def listTabs_ok_def)
  have h2: "listTabs_result env_no_page (trace fresh_world) 9222 = Inr [tab_worker, tab_blank]"
    by (simp add: env_no_page_def listTabs_none_def)
  show ?thesis
    using h1 getActiveTab_first_match [OF h1, of "''abc123''"]
      getActiveTab_first_match [OF h2, of "''abc123''"]
    by (simp add: listed_tabs_def tab_worker_def tab_blank_def tab_session_def tab_idle_def
          sublist_code prefix_code)
qed

section \<open>The headless predicate\<close>

text \<open>
  Claim C9, as the code has it. \<^verbatim>\<open>isHeadlessTab\<close> returns \<^verbatim>\<open>true\<close> exactly when a tab is
  set and \<^verbatim>\<open>config.headless\<close> is true, and \<^verbatim>\<open>false\<close> exactly when a tab is set and
  \<^verbatim>\<open>config.headless\<close> is false. With no tab it returns the left operand of \<^verbatim>\<open>&&\<close>, the
  falsy value \<^verbatim>\<open>undefined\<close>. It is a function of the runtime information alone.
\<close>

theorem isHeadlessTab_value:
  "(isHeadlessTab r = JBool True) = (tab r \<noteq> None \<and> headless (config r))
   \<and> (isHeadlessTab r = JBool False) = (tab r \<noteq> None \<and> \<not> headless (config r))
   \<and> (isHeadlessTab r = JUndefined) = (tab r = None)"
  by (auto simp: isHeadlessTab_def split: option.splits)

theorem isHeadlessTab_value_witness:
  "isHeadlessTab (connected_info\<lparr>config := scenario_config\<lparr>headless := True\<rparr>\<rparr>) = JBool True
   \<and> isHeadlessTab connected_info = JBool False
   \<and> isHeadlessTab fresh_info = JUndefined"
  using isHeadlessTab_value [of "connected_info\<lparr>config := scenario_config\<lparr>headless := True\<rparr>\<rparr>"]
    isHeadlessTab_value [of connected_info] isHeadlessTab_value [of fresh_info]
  by (simp add: connected_info_def fresh_info_def scenario_config_def)

text \<open>With no tab resolved the returned value is not \<^verbatim>\<open>false\<close>.\<close>

theorem isHeadlessTab_unresolved_counterexample:
  "tab fresh_info = None \<and> isHeadlessTab fresh_info \<noteq> JBool False"
  by (simp add: isHeadlessTab_def fresh_info_def)

section \<open>Resizing\<close>

text \<open>
  Claim C8. In a headless session \<^verbatim>\<open>resizeWindow\<close> never calls the window manager:
  none of the calls it adds to the trace is \<^verbatim>\<open>browserTools.resize\<close>. With emulation
  enabled and a channel open, a resize that gives only a height \<open>h\<close> still pushes the
  device-metrics override, with the unchanged width and the height \<open>h\<close>, and the viewport
  size becomes that pair.
\<close>

theorem resizeWindow_headless_skips_os_resize:
  assumes "headless (config (info s))"
  shows "prefix (trace s) (trace (snd (resizeWindow e nd s)))
     \<and> (\<forall>c\<in>set (calls_since s (snd (resizeWindow e nd s))). \<not> isOsResize c)
     \<and> (emulation (config (info s)) \<and> client (info s) = Some cl \<and> h \<noteq> 0 \<longrightarrow>
          (\<exists>rest. calls_since s (snd (resizeWindow e \<lparr>width = None, height = Some h\<rparr> s))
                 = SetDeviceMetricsOverride cl (width (viewportSize (info s))) (Some h)
                     (scaleFactor (config (info s))) (mobile (config (info s))) False # rest)
          \<and> viewportSize (info (snd (resizeWindow e \<lparr>width = None, height = Some h\<rparr> s)))
                 = \<lparr>width = width (viewportSize (info s)), height = Some h\<rparr>)"
proof -
  let ?s2 = "\<lambda>nd. s\<lparr>info := (info s)\<lparr>viewportSize := newSize nd s\<rparr>\<rparr>"
  have a: "prefix (trace s) (trace (snd (resizeWindow e nd s)))"
    by (rule trace_resizeWindow)
  obtain new where new: "trace (snd (setEmulationBounds e (?s2 nd))) = trace s @ new"
      "\<forall>c\<in>set (map fst new). \<not> isOsResize c"
    using trace_setEmulationBounds [of e "?s2 nd"] by auto
  have b: "\<forall>c\<in>set (calls_since s (snd (resizeWindow e nd s))). \<not> isOsResize c"
  proof (cases "emulation (config (info s))")
    case True
    with assms new show ?thesis
      by (simp add: resizeWindow_headless Let_def calls_since_def events_since_def)
  next
    case False
    with assms show ?thesis
      by (simp add: resizeWindow_headless Let_def calls_since_def events_since_def)
  qed
  have c: "(\<exists>rest. calls_since s (snd (resizeWindow e \<lparr>width = None, height = Some h\<rparr> s))
                 = SetDeviceMetricsOverride cl (width (viewportSize (info s))) (Some h)
                     (scaleFactor (config (info s))) (mobile (config (info s))) False # rest)
          \<and> viewportSize (info (snd (resizeWindow e \<lparr>width = None, height = Some h\<rparr> s)))
                 = \<lparr>width = width (viewportSize (info s)), height = Some h\<rparr>"
    if h: "emulation (config (info s))" "client (info s) = Some cl" "h \<noteq> 0"
  proof -
    let ?nd = "\<lparr>width = None, height = Some h\<rparr>"
    let ?vp = "\<lparr>width = width (viewportSize (info s)), height = Some h\<rparr>"
    let ?t = "s\<lparr>info := (info s)\<lparr>viewportSize := ?vp\<rparr>\<rparr>"
    have ns: "newSize ?nd s = ?vp"
      using h by (simp add: newSize_def js_or_def truthy_def)
    have cl: "client (info ?t) = Some cl" using h by simp
    have rw: "resizeWindow e ?nd s = setEmulationBounds e ?t"
      using assms h by (simp add: resizeWindow_headless Let_def ns)
    show ?thesis
      unfolding rw setEmulationBounds_client [OF cl]
      by (simp add: calls_since_def events_since_def rpc_def metricsCall_def visibleSizeCall_def Let_def
            split: option.splits)
  qed
  from a b c show ?thesis by blast
qed

theorem resizeWindow_headless_skips_os_resize_witness:
  "headless (config (info headless_world))
   \<and> calls_since headless_world (snd (resizeWindow env_ok only_height_600 headless_world))
       = [SetDeviceMetricsOverride (Client 1) (Some 1024) (Some 600) 1 False False,
          SetVisibleSize (Client 1) (Some 1024) (Some 600)]
   \<and> viewportSize (info (snd (resizeWindow env_ok only_height_600 headless_world)))
       = \<lparr>width = Some 1024, height = Some 600\<rparr>"
proof -
  have h: "headless (config (info headless_world))"
    by (simp add: headless_world_def)
  have r: "snd (resizeWindow env_ok only_height_600 headless_world)
      = \<lparr>info = (info headless_world)\<lparr>viewportSize := \<lparr>width = Some 1024, height = Some 600\<rparr>\<rparr>,
         trace = [(SetDeviceMetricsOverride (Client 1) (Some 1024) (Some 600) 1 False False, None),
                  (SetVisibleSize (Client 1) (Some 1024) (Some 600), None)]\<rparr>"
    by (simp add: resizeWindow_def setEmulationBounds_def await_then_def return_def rpc_def
          log_event_def js_or_def truthy_def Let_def fixture_defs)
  have t: "trace headless_world = []"
    by (simp add: headless_world_def)
  show ?thesis
    using h resizeWindow_headless_skips_os_resize [OF h, of env_ok only_height_600 "Client 1" 600]
    by (simp add: r t calls_since_def events_since_def)
qed

text \<open>
  Claim C2, as the code has it. In a session that is not headless, when the call to the
  window manager is rejected, \<^verbatim>\<open>resizeWindow\<close> raises that error at once:
  \<^verbatim>\<open>runtimeInfo\<close>, and so the viewport size, is left as it was, and the rejected call is the
  only call made, so no emulation override is attempted.
\<close>

theorem resizeWindow_os_failure_aborts:
  assumes "\<not> headless (config (info s))"
    and "call_result e (trace s) (osResizeCall nd s) = Some err"
  shows "fst (resizeWindow e nd s) = Inl err
     \<and> info (snd (resizeWindow e nd s)) = info s
     \<and> events_since s (snd (resizeWindow e nd s)) = [(osResizeCall nd s, Some err)]"
  by (simp add: resizeWindow_os_rejected [OF assms] events_since_def)

theorem resizeWindow_os_failure_aborts_witness:
  "\<not> headless (config (info connected_world))
   \<and> fst (resizeWindow env_os_resize_fails only_width_800 connected_world)
       = Inl (Rejection ''resize failed'')
   \<and> info (snd (resizeWindow env_os_resize_fails only_width_800 connected_world)) = connected_info
   \<and> events_since connected_world (snd (resizeWindow env_os_resize_fails only_width_800 connected_world))
       = [(BrowserToolsResize ''abc123'' (Some 1024) (Some 768) (Some 800) (Some 768),
           Some (Rejection ''resize failed''))]"
proof -
  have h1: "\<not> headless (config (info connected_world))"
    by (simp add: fixture_defs)
  have c: "osResizeCall only_width_800 connected_world
      = BrowserToolsResize ''abc123'' (Some 1024) (Some 768) (Some 800) (Some 768)"
    by (simp add: osResizeCall_def newSize_def js_or_def truthy_def fixture_defs)
  have h2: "call_result env_os_resize_fails (trace connected_world)
      (osResizeCall only_width_800 connected_world) = Some (Rejection ''resize failed'')"
    by (simp add: c) (simp add: fixture_defs)
  show ?thesis
    using h1 resizeWindow_os_failure_aborts [OF h1 h2]
    by (simp add: c) (simp add: connected_world_def)
qed

text \<open>A rejected window-manager call in a connected session with emulation enabled: the
  viewport size is not updated to 800 by 768 and no override is pushed.\<close>

theorem resizeWindow_os_failure_counterexample:
  "\<not> headless (config (info connected_world)) \<and> emulation (config (info connected_world))
   \<and> viewportSize (info (snd (resizeWindow env_os_resize_fails only_width_800 connected_world)))
       \<noteq> \<lparr>width = Some 800, height = Some 768\<rparr>
   \<and> calls_since connected_world (snd (resizeWindow env_os_resize_fails only_width_800 connected_world))
       = [BrowserToolsResize ''abc123'' (Some 1024) (Some 768) (Some 800) (Some 768)]"
  by (simp add: resizeWindow_def await_then_def rpc_def log_event_def js_or_def truthy_def Let_def
        calls_since_def events_since_def fixture_defs)

text \<open>
  Claim C3, as the code has it. The viewport size is left unchanged when the call to the
  window manager is rejected. Once that call has resolved, or has been skipped in a
  headless session, the viewport size is set to the new dimensions before the emulation
  overrides are pushed, and it keeps them when the device-metrics override is then
  rejected and the error raised.
\<close>

theorem resizeWindow_viewport_update:
  "(\<not> headless (config (info s)) \<and> call_result e (trace s) (osResizeCall nd s) \<noteq> None \<longrightarrow>
      viewportSize (info (snd (resizeWindow e nd s))) = viewportSize (info s))
   \<and> (headless (config (info s)) \<or> call_result e (trace s) (osResizeCall nd s) = None \<longrightarrow>
      viewportSize (info (snd (resizeWindow e nd s))) = newSize nd s)
   \<and> ((headless (config (info s)) \<or> call_result e (trace s) (osResizeCall nd s) = None)
       \<and> emulation (config (info s)) \<and> client (info s) = Some cl
       \<and> call_result e
            (if headless (config (info s)) then trace s else trace s @ [(osResizeCall nd s, None)])
            (metricsCall cl (config (info s)) (newSize nd s)) = Some err \<longrightarrow>
      fst (resizeWindow e nd s) = Inl err
      \<and> viewportSize (info (snd (resizeWindow e nd s))) = newSize nd s)"
proof -
  have a: "viewportSize (info (snd (resizeWindow e nd s))) = viewportSize (info s)"
    if "\<not> headless (config (info s))" "call_result e (trace s) (osResizeCall nd s) \<noteq> None"
  proof -
    from that obtain err where "call_result e (trace s) (osResizeCall nd s) = Some err" by auto
    with that show ?thesis by (simp add: resizeWindow_os_rejected)
  qed
  have b: "viewportSize (info (snd (resizeWindow e nd s))) = newSize nd s"
    if "headless (config (info s)) \<or> call_result e (trace s) (osResizeCall nd s) = None"
  proof (cases "headless (config (info s))")
    case True
    then show ?thesis by (simp add: resizeWindow_headless Let_def)
  next
    case False
    with that show ?thesis by (simp add: resizeWindow_os_resolved Let_def)
  qed
  have c: "fst (resizeWindow e nd s) = Inl err"
    if h: "headless (config (info s)) \<or> call_result e (trace s) (osResizeCall nd s) = None"
      "emulation (config (info s))" "client (info s) = Some cl"
      "call_result e
            (if headless (config (info s)) then trace s else trace s @ [(osResizeCall nd s, None)])
            (metricsCall cl (config (info s)) (newSize nd s)) = Some err"
  proof (cases "headless (config (info s))")
    case True
    let ?t = "s\<lparr>info := (info s)\<lparr>viewportSize := newSize nd s\<rparr>\<rparr>"
    have cl: "client (info ?t) = Some cl" using h by simp
    have rw: "resizeWindow e nd s = setEmulationBounds e ?t"
      using True h by (simp add: resizeWindow_headless Let_def)
    show ?thesis
      unfolding rw setEmulationBounds_client [OF cl] using True h by simp
  next
    case False
    let ?t = "(log_event (osResizeCall nd s) None s)\<lparr>info := (info s)\<lparr>viewportSize := newSize nd s\<rparr>\<rparr>"
    have cl: "client (info ?t) = Some cl" using h by simp
    have rw: "resizeWindow e nd s = setEmulationBounds e ?t"
      using False h by (simp add: resizeWindow_os_resolved Let_def)
    show ?thesis
      unfolding rw setEmulationBounds_client [OF cl] using False h by simp
  qed
  from a b c show ?thesis by blast
qed

theorem resizeWindow_viewport_update_witness:
  "fst (resizeWindow env_metrics_fails only_width_800 connected_world)
       = Inl (Rejection ''override failed'')
   \<and> viewportSize (info (snd (resizeWindow env_metrics_fails only_width_800 connected_world)))
       = \<lparr>width = Some 800, height = Some 768\<rparr>
   \<and> viewportSize (info (snd (resizeWindow env_os_resize_fails only_width_800 connected_world)))
       = \<lparr>width = Some 1024, height = Some 768\<rparr>"
proof -
  have ns: "newSize only_width_800 connected_world = \<lparr>width = Some 800, height = Some 768\<rparr>"
    by (simp add: newSize_def js_or_def truthy_def fixture_defs)
  have f: "\<not> headless (config (info connected_world))"
      "emulation (config (info connected_world))"
      "client (info connected_world) = Some (Client 1)"
      "viewportSize (info connected_world) = \<lparr>width = Some 1024, height = Some 768\<rparr>"
    by (simp_all add: fixture_defs)
  have os1: "call_result env_metrics_fails (trace connected_world)
       (osResizeCall only_width_800 connected_world) = None"
    by (simp add: osResizeCall_def env_metrics_fails_def metrics_rejects_def)
  have dm: "call_result env_metrics_fails
       (trace connected_world @ [(osResizeCall only_width_800 connected_world, None)])
       (metricsCall (Client 1) (config (info connected_world)) (newSize only_width_800 connected_world))
        = Some (Rejection ''override failed'')"
    by (simp add: metricsCall_def env_metrics_fails_def metrics_rejects_def)
  have os2: "call_result env_os_resize_fails (trace connected_world)
       (osResizeCall only_width_800 connected_world) \<noteq> None"
    by (simp add: osResizeCall_def env_os_resize_fails_def os_resize_rejects_def)
  show ?thesis
    using resizeWindow_viewport_update
            [of connected_world env_metrics_fails only_width_800 "Client 1" "Rejection ''override failed''"]
          resizeWindow_viewport_update
            [of connected_world env_os_resize_fails only_width_800 "Client 1" "Rejection ''override failed''"]
          f os1 os2 dm
    by (simp add: ns)
qed

text \<open>A rejected device-metrics override: the resize raises, yet the viewport size has
  moved from 1024 by 768 to 800 by 768.\<close>

theorem resizeWindow_override_failure_counterexample:
  "fst (resizeWindow env_metrics_fails only_width_800 connected_world)
       = Inl (Rejection ''override failed'')
   \<and> viewportSize (info connected_world) = \<lparr>width = Some 1024, height = Some 768\<rparr>
   \<and> viewportSize (info (snd (resizeWindow env_metrics_fails only_width_800 connected_world)))
       = \<lparr>width = Some 800, height = Some 768\<rparr>"
  by (simp add: resizeWindow_def setEmulationBounds_def await_then_def rpc_def log_event_def
        js_or_def truthy_def Let_def fixture_defs)

text \<open>
  Claim C6, as the code has it. In a session that is not headless and has emulation
  enabled, when the call to the window manager resolves: a resize that gives only a
  width \<open>w\<close> other than 0 sets the width of the viewport size to \<open>w\<close> and leaves its height
  unchanged; in general a dimension that is omitted, or given as 0, keeps the current
  value, and a dimension given as a number other than 0 replaces it.
\<close>

theorem resizeWindow_partial_update:
  assumes "\<not> headless (config (info s))" and "emulation (config (info s))"
    and "call_result e (trace s) (osResizeCall nd s) = None"
  shows "(\<forall>w. nd = \<lparr>width = Some w, height = None\<rparr> \<and> w \<noteq> 0 \<longrightarrow>
            viewportSize (info (snd (resizeWindow e nd s)))
              = \<lparr>width = Some w, height = height (viewportSize (info s))\<rparr>)
     \<and> (width nd = None \<or> width nd = Some 0 \<longrightarrow>
            width (viewportSize (info (snd (resizeWindow e nd s)))) = width (viewportSize (info s)))
     \<and> (height nd = None \<or> height nd = Some 0 \<longrightarrow>
            height (viewportSize (info (snd (resizeWindow e nd s)))) = height (viewportSize (info s)))
     \<and> (\<forall>w. width nd = Some w \<and> w \<noteq> 0 \<longrightarrow>
            width (viewportSize (info (snd (resizeWindow e nd s)))) = Some w)
     \<and> (\<forall>h. height nd = Some h \<and> h \<noteq> 0 \<longrightarrow>
            height (viewportSize (info (snd (resizeWindow e nd s)))) = Some h)"
proof -
  have "viewportSize (info (snd (resizeWindow e nd s))) = newSize nd s"
    using assms by (simp add: resizeWindow_os_resolved Let_def)
  then show ?thesis
    by (auto simp: newSize_def js_or_def truthy_def)
qed

theorem resizeWindow_partial_update_witness:
  "viewportSize (info (snd (resizeWindow env_ok only_width_800 connected_world)))
       = \<lparr>width = Some 800, height = Some 768\<rparr>
   \<and> height (viewportSize (info (snd (resizeWindow env_ok only_width_0 connected_world)))) = Some 768
   \<and> width (viewportSize (info (snd (resizeWindow env_ok only_width_0 connected_world)))) = Some 1024"
proof -
  have f: "\<not> headless (config (info connected_world))"
      "emulation (config (info connected_world))"
      "viewportSize (info connected_world) = \<lparr>width = Some 1024, height = Some 768\<rparr>"
    by (simp_all add: fixture_defs)
  have os: "call_result env_ok (trace connected_world) (osResizeCall nd connected_world) = None" for nd
    by (simp add: env_ok_def all_resolve_def)
  show ?thesis
    using resizeWindow_partial_update [OF f(1) f(2) os, of only_width_800]
          resizeWindow_partial_update [OF f(1) f(2) os, of only_width_0]
    by (simp add: f only_width_800_def only_width_0_def)
qed

text \<open>A resize to width 0 returns normally and leaves the width at 1024.\<close>

theorem resizeWindow_zero_width_counterexample:
  "\<not> headless (config (info connected_world)) \<and> emulation (config (info connected_world))
   \<and> fst (resizeWindow env_ok only_width_0 connected_world) = Inr ()
   \<and> width only_width_0 = Some 0
   \<and> width (viewportSize (info (snd (resizeWindow env_ok only_width_0 connected_world)))) = Some 1024"
  by (simp add: resizeWindow_def setEmulationBounds_def await_then_def rpc_def log_event_def
        js_or_def truthy_def Let_def fixture_defs)

section \<open>Opening the channel\<close>

text \<open>
  Claim C4. Whatever error the channel negotiation \<^verbatim>\<open>remoteChrome({ target, port })\<close> is
  rejected with, \<^verbatim>\<open>createClient\<close> catches it and returns normally; the \<^verbatim>\<open>client\<close>
  property is what it was before, so a session that had no channel still has none.
\<close>

theorem createClient_swallows_negotiation_failure:
  assumes "listTabs_result e (trace s) (cdpPort (info s)) = Inr tabs"
    and "firstMatch tabs (browserId (info s)) = Some t"
    and "remoteChrome_result e (trace s @ [(ListTabs (cdpPort (info s)), None)]) t (cdpPort (info s)) = Inl err"
  shows "fst (createClient e s) = Inr ()
     \<and> client (info (snd (createClient e s))) = client (info s)
     \<and> (client (info s) = None \<longrightarrow> client (info (snd (createClient e s))) = None)"
  by (simp add: createClient_refused [OF assms])

theorem createClient_swallows_negotiation_failure_witness:
  "remoteChrome_result env_refused
       (trace fresh_world @ [(ListTabs (cdpPort (info fresh_world)), None)]) tab_session
       (cdpPort (info fresh_world)) = Inl (Rejection ''ECONNREFUSED'')
   \<and> fst (createClient env_refused fresh_world) = Inr ()
   \<and> client (info (snd (createClient env_refused fresh_world))) = None"
proof -
  have lt: "listTabs_result env_refused (trace fresh_world) (cdpPort (info fresh_world)) = Inr listed_tabs"
    by (simp add: env_refused_def listTabs_ok_def)
  have fm: "firstMatch listed_tabs (browserId (info fresh_world)) = Some tab_session"
    by (simp add: fresh_world_facts firstMatch_listed)
  have rc: "remoteChrome_result env_refused
       (trace fresh_world @ [(ListTabs (cdpPort (info fresh_world)), None)]) tab_session
       (cdpPort (info fresh_world)) = Inl (Rejection ''ECONNREFUSED'')"
    by (simp add: env_refused_def remoteChrome_refused_def)
  show ?thesis
    using rc createClient_swallows_negotiation_failure [OF lt fm rc]
    by (simp add: fresh_world_facts)
qed

text \<open>
  Claim C10. When the tab list holds no matching page, or when the channel negotiation
  is rejected, \<^verbatim>\<open>createClient\<close> returns normally with \<^verbatim>\<open>runtimeInfo\<close> exactly as it was
  (neither \<^verbatim>\<open>tab\<close> nor \<^verbatim>\<open>client\<close> assigned), and it has made no call on a channel: no
  domain was enabled and no emulation setting applied.
\<close>

theorem createClient_failed_connect_is_atomic:
  assumes "listTabs_result e (trace s) (cdpPort (info s)) = Inr tabs"
    and "firstMatch tabs (browserId (info s)) = None
         \<or> (\<exists>t err. firstMatch tabs (browserId (info s)) = Some t
              \<and> remoteChrome_result e (trace s @ [(ListTabs (cdpPort (info s)), None)]) t
                   (cdpPort (info s)) = Inl err)"
  shows "fst (createClient e s) = Inr ()
     \<and> info (snd (createClient e s)) = info s
     \<and> (\<forall>c\<in>set (calls_since s (snd (createClient e s))). \<not> isChannelCall c)"
  using assms(2)
proof
  assume "firstMatch tabs (browserId (info s)) = None"
  from createClient_no_tab [OF assms(1) this] show ?thesis
    by (simp add: calls_since_def events_since_def)
next
  assume "\<exists>t err. firstMatch tabs (browserId (info s)) = Some t
              \<and> remoteChrome_result e (trace s @ [(ListTabs (cdpPort (info s)), None)]) t
                   (cdpPort (info s)) = Inl err"
  then obtain t err where "firstMatch tabs (browserId (info s)) = Some t"
    "remoteChrome_result e (trace s @ [(ListTabs (cdpPort (info s)), None)]) t
                   (cdpPort (info s)) = Inl err" by blast
  from createClient_refused [OF assms(1) this] show ?thesis
    by (simp add: calls_since_def events_since_def)
qed

theorem createClient_failed_connect_is_atomic_witness:
  "createClient env_no_page fresh_world
       = (Inr (), fresh_world\<lparr>trace := [(ListTabs 9222, None)]\<rparr>)
   \<and> fst (createClient env_refused fresh_world) = Inr ()
   \<and> info (snd (createClient env_refused fresh_world)) = fresh_info
   \<and> calls_since fresh_world (snd (createClient env_refused fresh_world))
       = [ListTabs 9222, RemoteChrome tab_session 9222]"
proof -
  have lt: "listTabs_result env_refused (trace fresh_world) (cdpPort (info fresh_world)) = Inr listed_tabs"
    by (simp add: env_refused_def listTabs_ok_def)
  have fm: "firstMatch listed_tabs (browserId (info fresh_world)) = Some tab_session"
    by (simp add: fresh_world_facts firstMatch_listed)
  have rc: "remoteChrome_result env_refused
       (trace fresh_world @ [(ListTabs (cdpPort (info fresh_world)), None)]) tab_session
       (cdpPort (info fresh_world)) = Inl (Rejection ''ECONNREFUSED'')"
    by (simp add: env_refused_def remoteChrome_refused_def)
  have h: "firstMatch listed_tabs (browserId (info fresh_world)) = None
         \<or> (\<exists>t err. firstMatch listed_tabs (browserId (info fresh_world)) = Some t
              \<and> remoteChrome_result env_refused
                   (trace fresh_world @ [(ListTabs (cdpPort (info fresh_world)), None)]) t
                   (cdpPort (info fresh_world)) = Inl err)"
    using fm rc by blast
  have lt0: "listTabs_result env_no_page (trace fresh_world) (cdpPort (info fresh_world))
       = Inr [tab_worker, tab_blank]"
    by (simp add: env_no_page_def listTabs_none_def)
  have fm0: "firstMatch [tab_worker, tab_blank] (browserId (info fresh_world)) = None"
    by (simp add: fresh_world_facts firstMatch_none_listed)
  have h0: "firstMatch [tab_worker, tab_blank] (browserId (info fresh_world)) = None
         \<or> (\<exists>t err. firstMatch [tab_worker, tab_blank] (browserId (info fresh_world)) = Some t
              \<and> remoteChrome_result env_no_page
                   (trace fresh_world @ [(ListTabs (cdpPort (info fresh_world)), None)]) t
                   (cdpPort (info fresh_world)) = Inl err)"
    using fm0 by blast
  have v0: "createClient env_no_page fresh_world
       = (Inr (), fresh_world\<lparr>trace := [(ListTabs 9222, None)]\<rparr>)"
    by (simp add: createClient_no_tab [OF lt0 fm0] log_event_def fresh_world_facts)
  have v1: "calls_since fresh_world (snd (createClient env_refused fresh_world))
       = [ListTabs 9222, RemoteChrome tab_session 9222]"
    by (simp add: createClient_refused [OF lt fm rc] calls_since_def events_since_def fresh_world_facts)
  show ?thesis
    using createClient_failed_connect_is_atomic [OF lt h]
      createClient_failed_connect_is_atomic [OF lt0 h0] v0 v1
    by (simp add: fresh_world_facts)
qed

text \<open>
  Claim C5, as the code has it. After a successful negotiation the tab and the channel
  handle are stored in \<^verbatim>\<open>runtimeInfo\<close> first, and they stay stored in every outcome.
  Whenever \<^verbatim>\<open>createClient\<close> then returns normally, \<^verbatim>\<open>Page.enable\<close> and \<^verbatim>\<open>Network.enable\<close>
  were both called on that channel and both resolved. When enabling a domain fails,
  \<^verbatim>\<open>createClient\<close> raises that very error and makes no further call: a rejected
  \<^verbatim>\<open>Page.enable\<close> ends it after three calls, and a rejected \<^verbatim>\<open>Network.enable\<close> (after a
  resolved \<^verbatim>\<open>Page.enable\<close>) ends it after four. In both cases the handle is still stored
  although the domains are not both enabled.
\<close>

theorem createClient_channel_recorded_before_enable:
  assumes "listTabs_result e (trace s) (cdpPort (info s)) = Inr tabs"
    and "firstMatch tabs (browserId (info s)) = Some t"
    and "remoteChrome_result e (trace s @ [(ListTabs (cdpPort (info s)), None)]) t (cdpPort (info s)) = Inr cl"
  shows "client (info (snd (createClient e s))) = Some cl
     \<and> tab (info (snd (createClient e s))) = Some t
     \<and> (fst (createClient e s) = Inr () \<longrightarrow>
          domainsEnabled cl (events_since s (snd (createClient e s))))
     \<and> (call_result e
           (trace s @ [(ListTabs (cdpPort (info s)), None), (RemoteChrome t (cdpPort (info s)), None)])
           (PageEnable cl) = Some err \<longrightarrow>
          fst (createClient e s) = Inl err
          \<and> events_since s (snd (createClient e s))
              = [(ListTabs (cdpPort (info s)), None), (RemoteChrome t (cdpPort (info s)), None),
                 (PageEnable cl, Some err)]
          \<and> \<not> domainsEnabled cl (events_since s (snd (createClient e s))))
     \<and> (call_result e
           (trace s @ [(ListTabs (cdpPort (info s)), None), (RemoteChrome t (cdpPort (info s)), None)])
           (PageEnable cl) = None
        \<and> call_result e
           (trace s @ [(ListTabs (cdpPort (info s)), None), (RemoteChrome t (cdpPort (info s)), None),
                       (PageEnable cl, None)])
           (NetworkEnable cl) = Some err \<longrightarrow>
          fst (createClient e s) = Inl err
          \<and> events_since s (snd (createClient e s))
              = [(ListTabs (cdpPort (info s)), None), (RemoteChrome t (cdpPort (info s)), None),
                 (PageEnable cl, None), (NetworkEnable cl, Some err)]
          \<and> \<not> domainsEnabled cl (events_since s (snd (createClient e s))))"
proof -
  let ?tr = "trace s @ [(ListTabs (cdpPort (info s)), None), (RemoteChrome t (cdpPort (info s)), None)]"
  have k: "keeps_session (opened s t cl) (snd (createClient e s))"
    unfolding createClient_opened [OF assms] by (rule keeps_session_after_open)
  then have a: "client (info (snd (createClient e s))) = Some cl"
    and b: "tab (info (snd (createClient e s))) = Some t"
    by (simp_all add: keeps_session_def)
  have c: "domainsEnabled cl (events_since s (snd (createClient e s)))"
    if "fst (createClient e s) = Inr ()"
  proof -
    from createClient_returned_enabled [OF assms that]
    obtain more where "trace (snd (createClient e s))
           = trace (opened s t cl) @ [(PageEnable cl, None), (NetworkEnable cl, None)] @ more"
      by blast
    then show ?thesis by (simp add: domainsEnabled_def events_since_def)
  qed
  have d: "fst (createClient e s) = Inl err
          \<and> events_since s (snd (createClient e s))
              = [(ListTabs (cdpPort (info s)), None), (RemoteChrome t (cdpPort (info s)), None),
                 (PageEnable cl, Some err)]
          \<and> \<not> domainsEnabled cl (events_since s (snd (createClient e s)))"
    if "call_result e ?tr (PageEnable cl) = Some err"
  proof -
    from that have "call_result e (trace (opened s t cl)) (PageEnable cl) = Some err" by simp
    from createClient_page_enable_rejected [OF assms this]
    show ?thesis by (simp add: events_since_def domainsEnabled_def)
  qed
  have f: "fst (createClient e s) = Inl err
          \<and> events_since s (snd (createClient e s))
              = [(ListTabs (cdpPort (info s)), None), (RemoteChrome t (cdpPort (info s)), None),
                 (PageEnable cl, None), (NetworkEnable cl, Some err)]
          \<and> \<not> domainsEnabled cl (events_since s (snd (createClient e s)))"
    if h: "call_result e ?tr (PageEnable cl) = None"
      "call_result e (trace s @ [(ListTabs (cdpPort (info s)), None),
                       (RemoteChrome t (cdpPort (info s)), None), (PageEnable cl, None)])
           (NetworkEnable cl) = Some err"
  proof -
    from h(1) have p: "call_result e (trace (opened s t cl)) (PageEnable cl) = None" by simp
    from h(2) have n: "call_result e (trace (opened s t cl) @ [(PageEnable cl, None)])
        (NetworkEnable cl) = Some err" by simp
    from createClient_network_enable_rejected [OF assms p n]
    show ?thesis by (simp add: events_since_def domainsEnabled_def)
  qed
  from a b c d f show ?thesis by blast
qed

theorem createClient_channel_recorded_before_enable_witness:
  "client (info (snd (createClient env_ok fresh_world))) = Some (Client 1)
   \<and> tab (info (snd (createClient env_ok fresh_world))) = Some tab_session
   \<and> fst (createClient env_ok fresh_world) = Inr ()
   \<and> domainsEnabled (Client 1) (events_since fresh_world (snd (createClient env_ok fresh_world)))
   \<and> client (info (snd (createClient env_page_enable_fails fresh_world))) = Some (Client 1)
   \<and> fst (createClient env_page_enable_fails fresh_world) = Inl (Rejection ''target closed'')
   \<and> events_since fresh_world (snd (createClient env_page_enable_fails fresh_world))
       = [(ListTabs 9222, None), (RemoteChrome tab_session 9222, None),
          (PageEnable (Client 1), Some (Rejection ''target closed''))]
   \<and> client (info (snd (createClient env_network_enable_fails fresh_world))) = Some (Client 1)
   \<and> fst (createClient env_network_enable_fails fresh_world) = Inl (Rejection ''socket hang up'')
   \<and> events_since fresh_world (snd (createClient env_network_enable_fails fresh_world))
       = [(ListTabs 9222, None), (RemoteChrome tab_session 9222, None),
          (PageEnable (Client 1), None),
          (NetworkEnable (Client 1), Some (Rejection ''socket hang up''))]
   \<and> \<not> domainsEnabled (Client 1)
         (events_since fresh_world (snd (createClient env_network_enable_fails fresh_world)))"
proof -
  have lt: "listTabs_result env_ok (trace fresh_world) (cdpPort (info fresh_world)) = Inr listed_tabs"
    by (simp add: env_ok_def listTabs_ok_def)
  have fm: "firstMatch listed_tabs (browserId (info fresh_world)) = Some tab_session"
    by (simp add: fresh_world_facts firstMatch_listed)
  have rc: "remoteChrome_result env_ok
       (trace fresh_world @ [(ListTabs (cdpPort (info fresh_world)), None)]) tab_session
       (cdpPort (info fresh_world)) = Inr (Client 1)"
    by (simp add: env_ok_def remoteChrome_ok_def)
  have lt': "listTabs_result env_page_enable_fails (trace fresh_world) (cdpPort (info fresh_world))
       = Inr listed_tabs"
    by (simp add: env_page_enable_fails_def listTabs_ok_def)
  have rc': "remoteChrome_result env_page_enable_fails
       (trace fresh_world @ [(ListTabs (cdpPort (info fresh_world)), None)]) tab_session
       (cdpPort (info fresh_world)) = Inr (Client 1)"
    by (simp add: env_page_enable_fails_def remoteChrome_ok_def)
  have pe: "call_result env_page_enable_fails
       (trace fresh_world @ [(ListTabs (cdpPort (info fresh_world)), None),
                             (RemoteChrome tab_session (cdpPort (info fresh_world)), None)])
       (PageEnable (Client 1)) = Some (Rejection ''target closed'')"
    by (simp add: env_page_enable_fails_def page_enable_rejects_def)
  have lt'': "listTabs_result env_network_enable_fails (trace fresh_world) (cdpPort (info fresh_world))
       = Inr listed_tabs"
    by (simp add: env_network_enable_fails_def listTabs_ok_def)
  have rc'': "remoteChrome_result env_network_enable_fails
       (trace fresh_world @ [(ListTabs (cdpPort (info fresh_world)), None)]) tab_session
       (cdpPort (info fresh_world)) = Inr (Client 1)"
    by (simp add: env_network_enable_fails_def remoteChrome_ok_def)
  have pn: "call_result env_network_enable_fails
       (trace fresh_world @ [(ListTabs (cdpPort (info fresh_world)), None),
                             (RemoteChrome tab_session (cdpPort (info fresh_world)), None)])
       (PageEnable (Client 1)) = None"
    by (simp add: env_network_enable_fails_def network_enable_rejects_def)
  have ne: "call_result env_network_enable_fails
       (trace fresh_world @ [(ListTabs (cdpPort (info fresh_world)), None),
                             (RemoteChrome tab_session (cdpPort (info fresh_world)), None),
                             (PageEnable (Client 1), None)])
       (NetworkEnable (Client 1)) = Some (Rejection ''socket hang up'')"
    by (simp add: env_network_enable_fails_def network_enable_rejects_def)
  have ok: "\<forall>tr c. call_result env_ok tr c = None"
    by (simp add: env_ok_def all_resolve_def)
  have cfg: "\<not> headless (config (info fresh_world))" "emulation (config (info fresh_world))"
    by (simp_all add: fresh_world_def fresh_info_def scenario_config_def)
  have ret: "fst (createClient env_ok fresh_world) = Inr ()"
    using createClient_all_resolve [OF lt fm rc ok cfg] by simp
  have w1: "client (info (snd (createClient env_ok fresh_world))) = Some (Client 1)
     \<and> tab (info (snd (createClient env_ok fresh_world))) = Some tab_session
     \<and> domainsEnabled (Client 1) (events_since fresh_world (snd (createClient env_ok fresh_world)))"
    using createClient_channel_recorded_before_enable [OF lt fm rc, of "Rejection ''target closed''"] ret
    by simp
  have w2: "client (info (snd (createClient env_page_enable_fails fresh_world))) = Some (Client 1)
     \<and> fst (createClient env_page_enable_fails fresh_world) = Inl (Rejection ''target closed'')
     \<and> events_since fresh_world (snd (createClient env_page_enable_fails fresh_world))
         = [(ListTabs 9222, None), (RemoteChrome tab_session 9222, None),
            (PageEnable (Client 1), Some (Rejection ''target closed''))]"
    using createClient_channel_recorded_before_enable [OF lt' fm rc', of "Rejection ''target closed''"] pe
    by (simp add: fresh_world_facts)
  have w3: "client (info (snd (createClient env_network_enable_fails fresh_world))) = Some (Client 1)
     \<and> fst (createClient env_network_enable_fails fresh_world) = Inl (Rejection ''socket hang up'')
     \<and> events_since fresh_world (snd (createClient env_network_enable_fails fresh_world))
         = [(ListTabs 9222, None), (RemoteChrome tab_session 9222, None),
            (PageEnable (Client 1), None),
            (NetworkEnable (Client 1), Some (Rejection ''socket hang up''))]
     \<and> \<not> domainsEnabled (Client 1)
           (events_since fresh_world (snd (createClient env_network_enable_fails fresh_world)))"
    using createClient_channel_recorded_before_enable [OF lt'' fm rc'', of "Rejection ''socket hang up''"] pn ne
    by (simp add: fresh_world_facts domainsEnabled_def)
  from w1 w2 w3 ret show ?thesis by blast
qed

text \<open>A rejected \<^verbatim>\<open>Page.enable\<close>: \<^verbatim>\<open>createClient\<close> raises, the \<^verbatim>\<open>client\<close> property is set,
  and the domains are not enabled.\<close>

theorem createClient_enable_failure_counterexample:
  "fst (createClient env_page_enable_fails fresh_world) = Inl (Rejection ''target closed'')
   \<and> client (info (snd (createClient env_page_enable_fails fresh_world))) = Some (Client 1)
   \<and> \<not> domainsEnabled (Client 1) (trace (snd (createClient env_page_enable_fails fresh_world)))"
proof -
  have lt: "listTabs_result env_page_enable_fails (trace fresh_world) (cdpPort (info fresh_world))
       = Inr listed_tabs"
    by (simp add: env_page_enable_fails_def listTabs_ok_def)
  have fm: "firstMatch listed_tabs (browserId (info fresh_world)) = Some tab_session"
    by (simp add: fresh_world_facts firstMatch_listed)
  have rc: "remoteChrome_result env_page_enable_fails
       (trace fresh_world @ [(ListTabs (cdpPort (info fresh_world)), None)]) tab_session
       (cdpPort (info fresh_world)) = Inr (Client 1)"
    by (simp add: env_page_enable_fails_def remoteChrome_ok_def)
  have pe: "call_result env_page_enable_fails (trace (opened fresh_world tab_session (Client 1)))
       (PageEnable (Client 1)) = Some (Rejection ''target closed'')"
    by (simp add: env_page_enable_fails_def page_enable_rejects_def)
  show ?thesis
    by (simp add: createClient_page_enable_rejected [OF lt fm rc pe] domainsEnabled_def
          fresh_world_facts)
qed

section \<open>The connect-then-resize scenario\<close>

text \<open>
  Claim C1. A session whose configuration is width 1024, height 768, not headless,
  emulation on, scale factor 1 and not mobile connects (the tab is found, the channel
  opens, every call resolves) and is then resized with only the width 800. The connect
  leaves the viewport size at 1024 by 768; the resize returns normally, the viewport
  size becomes 800 by 768, and the resize makes exactly three calls, in this order: the
  window-manager resize from (1024, 768) to (800, 768), the device-metrics override
  with width 800, height 768, scale factor 1, mobile false and fitWindow false, and the
  visible-size override with 800 by 768.
\<close>

theorem scenario_connect_then_resize:
  assumes "config (info s) = \<lparr>scaleFactor = 1, mobile = False, touch = tch, userAgent = ua,
              headless = False, emulation = True, cfg_width = Some 1024, cfg_height = Some 768\<rparr>"
    and "listTabs_result e (trace s) (cdpPort (info s)) = Inr tabs"
    and "firstMatch tabs (browserId (info s)) = Some t"
    and "remoteChrome_result e (trace s @ [(ListTabs (cdpPort (info s)), None)]) t (cdpPort (info s)) = Inr cl"
    and "\<forall>tr c. call_result e tr c = None"
  shows "fst (createClient e s) = Inr ()
     \<and> client (info (snd (createClient e s))) = Some cl
     \<and> viewportSize (info (snd (createClient e s))) = \<lparr>width = Some 1024, height = Some 768\<rparr>
     \<and> fst (resizeWindow e \<lparr>width = Some 800, height = None\<rparr> (snd (createClient e s))) = Inr ()
     \<and> viewportSize (info (snd (resizeWindow e \<lparr>width = Some 800, height = None\<rparr>
                                  (snd (createClient e s)))))
          = \<lparr>width = Some 800, height = Some 768\<rparr>
     \<and> events_since (snd (createClient e s))
          (snd (resizeWindow e \<lparr>width = Some 800, height = None\<rparr> (snd (createClient e s))))
          = [(BrowserToolsResize (browserId (info s)) (Some 1024) (Some 768) (Some 800) (Some 768), None),
             (SetDeviceMetricsOverride cl (Some 800) (Some 768) 1 False False, None),
             (SetVisibleSize cl (Some 800) (Some 768), None)]"
proof -
  have em: "emulation (config (info s))" and nh: "\<not> headless (config (info s))"
    using assms(1) by simp_all
  let ?s1 = "snd (createClient e s)"
  note cc = createClient_all_resolve [OF assms(2,3,4,5) nh em]
  have i1: "info ?s1 = (info s)\<lparr>tab := Some t, client := Some cl,
                               viewportSize := \<lparr>width = Some 1024, height = Some 768\<rparr>\<rparr>"
    using cc assms(1) by (simp add: js_or_def truthy_def)
  have f1: "client (info ?s1) = Some cl" "\<not> headless (config (info ?s1))"
      "emulation (config (info ?s1))"
    using em nh by (simp_all add: i1)
  let ?nd = "\<lparr>width = Some 800, height = None\<rparr>"
  have ns1: "newSize ?nd ?s1 = \<lparr>width = Some 800, height = Some 768\<rparr>"
    by (simp add: newSize_def js_or_def truthy_def i1)
  have os1: "osResizeCall ?nd ?s1
      = BrowserToolsResize (browserId (info s)) (Some 1024) (Some 768) (Some 800) (Some 768)"
    by (simp add: osResizeCall_def ns1) (simp add: i1)
  have dm1: "metricsCall cl (config (info ?s1)) \<lparr>width = Some 800, height = Some 768\<rparr>
      = SetDeviceMetricsOverride cl (Some 800) (Some 768) 1 False False"
    using assms(1) by (simp add: metricsCall_def i1)
  have rr: "resizeWindow e ?nd ?s1 =
     (Inr (), ?s1\<lparr>info := (info ?s1)\<lparr>viewportSize := \<lparr>width = Some 800, height = Some 768\<rparr>\<rparr>,
               trace := trace ?s1 @
                 [(BrowserToolsResize (browserId (info s)) (Some 1024) (Some 768) (Some 800) (Some 768), None),
                  (SetDeviceMetricsOverride cl (Some 800) (Some 768) 1 False False, None),
                  (SetVisibleSize cl (Some 800) (Some 768), None)]\<rparr>)"
    unfolding all_resolve_resizeWindow [OF assms(5) f1] ns1 os1 dm1
    by (simp add: visibleSizeCall_def)
  have a: "fst (createClient e s) = Inr ()" using cc by simp
  have b: "viewportSize (info ?s1) = \<lparr>width = Some 1024, height = Some 768\<rparr>" by (simp add: i1)
  have c: "fst (resizeWindow e ?nd ?s1) = Inr ()" unfolding rr by simp
  have d: "viewportSize (info (snd (resizeWindow e ?nd ?s1))) = \<lparr>width = Some 800, height = Some 768\<rparr>"
    unfolding rr by simp
  have ev: "events_since ?s1 (snd (resizeWindow e ?nd ?s1))
          = [(BrowserToolsResize (browserId (info s)) (Some 1024) (Some 768) (Some 800) (Some 768), None),
             (SetDeviceMetricsOverride cl (Some 800) (Some 768) 1 False False, None),
             (SetVisibleSize cl (Some 800) (Some 768), None)]"
    unfolding rr by (simp add: events_since_def)
  from a f1(1) b c d ev show ?thesis by blast
qed

theorem scenario_connect_then_resize_witness:
  "fst (createClient env_ok fresh_world) = Inr ()
   \<and> viewportSize (info (snd (resizeWindow env_ok \<lparr>width = Some 800, height = None\<rparr>
                                (snd (createClient env_ok fresh_world)))))
       = \<lparr>width = Some 800, height = Some 768\<rparr>
   \<and> events_since (snd (createClient env_ok fresh_world))
       (snd (resizeWindow env_ok \<lparr>width = Some 800, height = None\<rparr>
               (snd (createClient env_ok fresh_world))))
       = [(BrowserToolsResize ''abc123'' (Some 1024) (Some 768) (Some 800) (Some 768), None),
          (SetDeviceMetricsOverride (Client 1) (Some 800) (Some 768) 1 False False, None),
          (SetVisibleSize (Client 1) (Some 800) (Some 768), None)]"
proof -
  have cfg: "config (info fresh_world) = \<lparr>scaleFactor = 1, mobile = False, touch = None,
       userAgent = None, headless = False, emulation = True,
       cfg_width = Some 1024, cfg_height = Some 768\<rparr>"
    by (simp add: fresh_world_def fresh_info_def scenario_config_def)
  have lt: "listTabs_result env_ok (trace fresh_world) (cdpPort (info fresh_world)) = Inr listed_tabs"
    by (simp add: env_ok_def listTabs_ok_def)
  have fm: "firstMatch listed_tabs (browserId (info fresh_world)) = Some tab_session"
    by (simp add: fresh_world_facts firstMatch_listed)
  have rc: "remoteChrome_result env_ok
       (trace fresh_world @ [(ListTabs (cdpPort (info fresh_world)), None)]) tab_session
       (cdpPort (info fresh_world)) = Inr (Client 1)"
    by (simp add: env_ok_def remoteChrome_ok_def)
  have ok: "\<forall>tr c. call_result env_ok tr c = None"
    by (simp add: env_ok_def all_resolve_def)
  show ?thesis
    using scenario_connect_then_resize [OF cfg lt fm rc ok]
    by (simp add: fresh_world_facts)
qed

end
